theory Spec2Isabelle
  imports Main "HOL-Library.Word"
begin

section \<open>JavaScript values used by the wizard\<close>

text \<open>
  A JavaScript string is a sequence of UTF-16 code units. String literals of the source
  are ASCII and are written with \<open>lit\<close>.
\<close>

type_synonym code_unit = "16 word"
type_synonym jsstring = "code_unit list"

definition lit :: "string \<Rightarrow> jsstring" where
  "lit s = map of_char s"

text \<open>
  \<open>String.prototype.trim\<close> removes the code units of the ECMAScript productions
  WhiteSpace and LineTerminator from both ends: TAB, LF, VT, FF, CR, SP, NBSP, U+1680,
  U+2000 to U+200A, U+2028, U+2029, U+202F, U+205F, U+3000 and U+FEFF.
\<close>

definition is_ws :: "code_unit \<Rightarrow> bool" where
  "is_ws c \<longleftrightarrow>
     c = 0x09 \<or> c = 0x0A \<or> c = 0x0B \<or> c = 0x0C \<or> c = 0x0D \<or> c = 0x20 \<or> c = 0xA0 \<or>
     c = 0x1680 \<or> (0x2000 \<le> c \<and> c \<le> 0x200A) \<or> c = 0x2028 \<or> c = 0x2029 \<or>
     c = 0x202F \<or> c = 0x205F \<or> c = 0x3000 \<or> c = 0xFEFF"

definition trim :: "jsstring \<Rightarrow> jsstring" where
  "trim s = rev (dropWhile is_ws (rev (dropWhile is_ws s)))"

text \<open>
  \<open>s.split(sep)\<close> for a separator of one code unit: the segments between the
  separators, in order; the empty string gives one empty segment.
\<close>

fun js_split :: "'a \<Rightarrow> 'a list \<Rightarrow> 'a list list" where
  "js_split sep [] = [[]]"
| "js_split sep (c # cs) =
     (if c = sep then [] # js_split sep cs
      else (case js_split sep cs of [] \<Rightarrow> [[c]] | w # ws \<Rightarrow> (c # w) # ws))"

text \<open>\<open>xs.join(sep)\<close> on an array of strings.\<close>

fun js_join :: "'a list \<Rightarrow> 'a list list \<Rightarrow> 'a list" where
  "js_join sep [] = []"
| "js_join sep [x] = x"
| "js_join sep (x # y # ys) = x @ sep @ js_join sep (y # ys)"

text \<open>
  \<open>xs.filter((_, i) => p(i))\<close>: the callback sees each element with its index.
\<close>

definition filter_index :: "(nat \<Rightarrow> bool) \<Rightarrow> 'a list \<Rightarrow> 'a list" where
  "filter_index p xs = map fst (filter (\<lambda>(x, i). p i) (zip xs [0..<length xs]))"

text \<open>
  Truthiness, and \<open>a || b\<close> on a field that may be absent (\<open>undefined\<close>): the
  empty string, the number 0, \<open>false\<close> and \<open>undefined\<close> are falsy; every array
  is truthy.
\<close>

definition truthy_str :: "jsstring option \<Rightarrow> bool" where
  "truthy_str v = (case v of None \<Rightarrow> False | Some s \<Rightarrow> s \<noteq> [])"

definition truthy_num :: "int option \<Rightarrow> bool" where
  "truthy_num v = (case v of None \<Rightarrow> False | Some n \<Rightarrow> n \<noteq> 0)"

definition truthy_bool :: "bool option \<Rightarrow> bool" where
  "truthy_bool v = (case v of None \<Rightarrow> False | Some b \<Rightarrow> b)"

definition or_str :: "jsstring option \<Rightarrow> jsstring \<Rightarrow> jsstring" where
  "or_str v d = (if truthy_str v then the v else d)"

definition or_num :: "int option \<Rightarrow> int \<Rightarrow> int" where
  "or_num v d = (if truthy_num v then the v else d)"

definition or_bool :: "bool option \<Rightarrow> bool \<Rightarrow> bool" where
  "or_bool v d = (if truthy_bool v then the v else d)"

definition or_arr :: "'a list option \<Rightarrow> 'a list \<Rightarrow> 'a list" where
  "or_arr v d = (case v of None \<Rightarrow> d | Some a \<Rightarrow> a)"

section \<open>The intake records\<close>

record certification =
  name :: jsstring
  issuer :: "jsstring option"
  year :: "int option"

record project =
  title :: jsstring
  description :: "jsstring option"
  techStack :: "jsstring list option"
  githubUrl :: "jsstring option"

record internship =
  company :: jsstring
  role :: "jsstring option"
  durationMonths :: "int option"
  achievements :: "jsstring option"
  hasCertificate :: "bool option"

text \<open>
  The \<open>data\<close> state of \<open>App\<close>. \<open>resumeFile\<close> starts as \<open>null\<close> and is never
  written.
\<close>

record intake =
  skills :: "jsstring list"
  certifications :: "certification list"
  projects :: "project list"
  internships :: "internship list"
  resumeText :: "jsstring option"
  resumeFile :: "unit option"

section \<open>SkillsForm\<close>

text \<open>
  A handler's result is the argument it passes to \<open>onChange\<close>, or \<open>None\<close> when it
  does not call \<open>onChange\<close>. \<open>apply_change\<close> is the list the parent holds afterwards.
\<close>

definition apply_change :: "'a list option \<Rightarrow> 'a list \<Rightarrow> 'a list" where
  "apply_change call current = (case call of None \<Rightarrow> current | Some v \<Rightarrow> v)"

text \<open>
  \<^verbatim>\<open>const addSkill = skill => { if (!skills.includes(skill)) onChange([...skills, skill]); };\<close>
  \<^verbatim>\<open>const removeSkill = skill => onChange(skills.filter(s => s !== skill));\<close>
  Clear All is \<^verbatim>\<open>onClick={() => onChange([])}\<close>.
\<close>

definition addSkill :: "jsstring list \<Rightarrow> jsstring \<Rightarrow> jsstring list option" where
  "addSkill sks skill = (if skill \<notin> set sks then Some (sks @ [skill]) else None)"

definition removeSkill :: "jsstring list \<Rightarrow> jsstring \<Rightarrow> jsstring list option" where
  "removeSkill sks skill = Some (filter (\<lambda>s. s \<noteq> skill) sks)"

definition clearAll :: "jsstring list \<Rightarrow> jsstring list option" where
  "clearAll sks = Some []"

section \<open>CertificationsForm: manual add and remove\<close>

record scan_match =
  tier :: "jsstring option"
  tier_label :: "jsstring option"

record scan_result =
  identified :: "bool option"
  cert_name :: "jsstring option"
  match :: "scan_match option"
  extracted_text_preview :: "jsstring option"
  error :: "jsstring option"

record cert_form =
  cf_name :: jsstring
  cf_issuer :: jsstring
  cf_year :: int
  scanning :: bool
  scanResult :: "scan_result option"

text \<open>
  The form's state is \<open>name\<close>, \<open>issuer\<close>, \<open>year\<close> (initially 2024; the form
  has no input for it), \<open>scanning\<close> and \<open>scanResult\<close>.
  \<^verbatim>\<open>const addCert = () => {\<close>
  \<^verbatim>\<open>  if (!name.trim()) return;\<close>
  \<^verbatim>\<open>  onChange([...certs, { name: name.trim(), issuer: issuer.trim(), year }]);\<close>
  \<^verbatim>\<open>  setName(''); setIssuer(''); setYear(2024);\<close>
  \<^verbatim>\<open>};\<close>
  \<^verbatim>\<open>const removeCert = idx => onChange(certs.filter((_, i) => i !== idx));\<close>
  An add handler returns the argument of \<open>onChange\<close>, if it calls it, and the form's
  state afterwards.
\<close>

definition addCert ::
  "certification list \<Rightarrow> cert_form \<Rightarrow> certification list option \<times> cert_form" where
  "addCert certs f =
     (if trim (cf_name f) = [] then (None, f)
      else (Some (certs @ [\<lparr>name = trim (cf_name f), issuer = Some (trim (cf_issuer f)),
                            year = Some (cf_year f)\<rparr>]),
            f\<lparr>cf_name := [], cf_issuer := [], cf_year := 2024\<rparr>))"

definition removeCert :: "certification list \<Rightarrow> nat \<Rightarrow> certification list option" where
  "removeCert certs idx = Some (filter_index (\<lambda>i. i \<noteq> idx) certs)"

section \<open>ProjectsForm\<close>

record project_form =
  pf_title :: jsstring
  pf_description :: jsstring
  pf_techStack :: jsstring
  pf_githubUrl :: jsstring

text \<open>
  \<^verbatim>\<open>const addProject = () => {\<close>
  \<^verbatim>\<open>  if (!form.title.trim()) return;\<close>
  \<^verbatim>\<open>  onChange([...projects, {\<close>
  \<^verbatim>\<open>    title: form.title.trim(),\<close>
  \<^verbatim>\<open>    description: form.description.trim(),\<close>
  \<^verbatim>\<open>    techStack: form.techStack.split(',').map(s => s.trim()).filter(Boolean),\<close>
  \<^verbatim>\<open>    githubUrl: form.githubUrl.trim(),\<close>
  \<^verbatim>\<open>  }]);\<close>
  \<^verbatim>\<open>  setForm({ title: '', description: '', techStack: '', githubUrl: '' });\<close>
  \<^verbatim>\<open>};\<close>
  \<open>filter(Boolean)\<close> on strings keeps the non-empty ones.
\<close>

definition comma :: code_unit where
  "comma = 0x2C"

definition addProject ::
  "project list \<Rightarrow> project_form \<Rightarrow> project list option \<times> project_form" where
  "addProject projs form =
     (if trim (pf_title form) = [] then (None, form)
      else (Some (projs @ [\<lparr>title = trim (pf_title form),
                               description = Some (trim (pf_description form)),
                               techStack = Some (filter (\<lambda>s. s \<noteq> [])
                                 (map trim (js_split comma (pf_techStack form)))),
                               githubUrl = Some (trim (pf_githubUrl form))\<rparr>]),
            \<lparr>pf_title = [], pf_description = [], pf_techStack = [], pf_githubUrl = []\<rparr>))"

definition removeProject :: "project list \<Rightarrow> nat \<Rightarrow> project list option" where
  "removeProject projs idx = Some (filter_index (\<lambda>i. i \<noteq> idx) projs)"

section \<open>InternshipsForm\<close>

record internship_form =
  if_company :: jsstring
  if_role :: jsstring
  if_durationMonths :: int
  if_achievements :: jsstring
  if_hasCertificate :: bool

text \<open>
  \<^verbatim>\<open>const addInternship = () => {\<close>
  \<^verbatim>\<open>  if (!form.company.trim()) return;\<close>
  \<^verbatim>\<open>  onChange([...internships, { ...form, company: form.company.trim(),\<close>
  \<^verbatim>\<open>    role: form.role.trim(), achievements: form.achievements.trim() }]);\<close>
  \<^verbatim>\<open>  setForm({ company: '', role: '', durationMonths: 3, achievements: '', hasCertificate: false });\<close>
  \<^verbatim>\<open>};\<close>
  The spread keeps \<open>durationMonths\<close> and \<open>hasCertificate\<close> of the form.
\<close>

definition addInternship ::
  "internship list \<Rightarrow> internship_form \<Rightarrow> internship list option \<times> internship_form" where
  "addInternship interns form =
     (if trim (if_company form) = [] then (None, form)
      else (Some (interns @ [\<lparr>company = trim (if_company form),
                                  role = Some (trim (if_role form)),
                                  durationMonths = Some (if_durationMonths form),
                                  achievements = Some (trim (if_achievements form)),
                                  hasCertificate = Some (if_hasCertificate form)\<rparr>]),
            \<lparr>if_company = [], if_role = [], if_durationMonths = 3, if_achievements = [],
             if_hasCertificate = False\<rparr>))"

definition removeInternship :: "internship list \<Rightarrow> nat \<Rightarrow> internship list option" where
  "removeInternship interns idx = Some (filter_index (\<lambda>i. i \<noteq> idx) interns)"

section \<open>CertificationsForm: the drop handler\<close>

text \<open>
  A request fails when \<open>fetch\<close> rejects or when the body is not JSON
  (\<open>res.json()\<close> rejects); both happen inside the handler's \<open>try\<close>.
\<close>

datatype fetch_error = NetworkError | InvalidJson

text \<open>The object the \<open>catch\<close> branch stores: \<open>{ error: '...' }\<close>.\<close>

definition scan_failed :: scan_result where
  "scan_failed = \<lparr>identified = None, cert_name = None, match = None,
     extracted_text_preview = None,
     error = Some (lit ''Failed to scan certificate file.'')\<rparr>"

text \<open>\<open>result.match?.tier_label || ''\<close>\<close>

definition tierLabel :: "scan_result \<Rightarrow> jsstring" where
  "tierLabel result =
     or_str (case match result of None \<Rightarrow> None | Some m \<Rightarrow> tier_label m) []"

text \<open>
  \<open>onDrop\<close> of \<open>CertificationsForm\<close>. \<open>certs\<close> is the list the component was
  rendered with when the callback was created: a constant of the running handler. Each
  accepted file is given by the outcome of its scan request. The state is the form's own
  state and the parent's \<open>data\<close>, which \<open>onChange\<close> writes
  (\<open>updateData('certifications', v)\<close>).
\<close>

text \<open>
  \<^verbatim>\<open>for (const file of acceptedFiles) {\<close>
  \<^verbatim>\<open>  setScanning(true); setScanResult(null);\<close>
  \<^verbatim>\<open>  try {\<close>
  \<^verbatim>\<open>    ... const res = await fetch(...); const result = await res.json();\<close>
  \<^verbatim>\<open>    setScanResult(result);\<close>
  \<^verbatim>\<open>    if (result.identified && result.cert_name) {\<close>
  \<^verbatim>\<open>      const certName = result.cert_name;\<close>
  \<^verbatim>\<open>      const tierLabel = result.match?.tier_label || '';\<close>
  \<^verbatim>\<open>      onChange([...certs, { name: certName, issuer: tierLabel, year: 2024 }]);\<close>
  \<^verbatim>\<open>    }\<close>
  \<^verbatim>\<open>  } catch (err) { setScanResult({ error: 'Failed to scan certificate file.' }); }\<close>
  \<^verbatim>\<open>  setScanning(false);\<close>
  \<^verbatim>\<open>}\<close>
\<close>

fun CertificationsForm_onDrop ::
  "certification list \<Rightarrow> (fetch_error + scan_result) list \<Rightarrow> cert_form \<times> intake
     \<Rightarrow> cert_form \<times> intake" where
  "CertificationsForm_onDrop certs [] (f, d) = (f, d)"
| "CertificationsForm_onDrop certs (outcome # acceptedFiles) (f, d) =
     (let f1 = f\<lparr>scanning := True, scanResult := None\<rparr>;
          (f2, d2) =
            (case outcome of
               Inr result \<Rightarrow>
                 (f1\<lparr>scanResult := Some result\<rparr>,
                  if truthy_bool (identified result) \<and> truthy_str (cert_name result)
                  then d\<lparr>certifications :=
                          certs @ [\<lparr>name = the (cert_name result),
                                    issuer = Some (tierLabel result),
                                    year = Some 2024\<rparr>]\<rparr>
                  else d)
             | Inl err \<Rightarrow> (f1\<lparr>scanResult := Some scan_failed\<rparr>, d))
      in CertificationsForm_onDrop certs acceptedFiles (f2\<lparr>scanning := False\<rparr>, d2))"

text \<open>What the scan panel shows as an error: \<open>scanResult.error && ...\<close>.\<close>

definition cert_error_shown :: "cert_form \<Rightarrow> jsstring option" where
  "cert_error_shown f =
     (case scanResult f of
        None \<Rightarrow> None
      | Some r \<Rightarrow> if truthy_str (error r) then error r else None)"

section \<open>ResumeUpload: the drop handler\<close>

record js_file =
  file_name :: jsstring

text \<open>
  The fields of the scan response the handler reads (the response also carries
  \<open>score\<close> and \<open>section_scores\<close>, which only the preview panel reads).
\<close>

record resume_scan =
  total_words :: "int option"
  suggestions :: "jsstring list option"

record resume_form =
  uploading :: bool
  fileName :: jsstring
  preview :: "resume_scan option"

text \<open>
  The argument of \<open>onChange\<close> in \<open>reader.onload\<close>:
  \<open>result.total_words ? `[Resume uploaded: ${file.name}]\n` + (result.suggestions?.join('\n') || '') : ''\<close>
\<close>

definition newline :: code_unit where
  "newline = 0x0A"

definition uploaded_text :: "js_file \<Rightarrow> resume_scan \<Rightarrow> jsstring" where
  "uploaded_text f result =
     (if truthy_num (total_words result)
      then lit ''[Resume uploaded: '' @ file_name f @ lit '']'' @ [newline]
           @ or_str (map_option (js_join [newline]) (suggestions result)) []
      else [])"

text \<open>
  \<open>readAsText\<close> ends with a \<open>load\<close> event, which runs \<open>reader.onload\<close>, or with
  an \<open>error\<close> event, for which the handler registers nothing.
\<close>

datatype read_outcome = Loaded | ReadFailed

text \<open>
  \<open>onDrop\<close> of \<open>ResumeUpload\<close>: only \<open>acceptedFiles[0]\<close> is used, given with the
  outcome of its scan request. The result is the form's state, the parent's \<open>data\<close>
  (\<open>onChange\<close> is \<open>updateData('resumeText', v)\<close>) and what \<open>console.error\<close>
  received.
\<close>

text \<open>
  \<^verbatim>\<open>const file = acceptedFiles[0];\<close>
  \<^verbatim>\<open>if (!file) return;\<close>
  \<^verbatim>\<open>setUploading(true); setFileName(file.name);\<close>
  \<^verbatim>\<open>try {\<close>
  \<^verbatim>\<open>  ... const res = await fetch(...); const result = await res.json();\<close>
  \<^verbatim>\<open>  setPreview(result);\<close>
  \<^verbatim>\<open>  const reader = new FileReader();\<close>
  \<^verbatim>\<open>  reader.onload = () => { onChange(result.total_words ? ... : ''); };\<close>
  \<^verbatim>\<open>  reader.readAsText(file);\<close>
  \<^verbatim>\<open>} catch (err) { console.error('Upload error:', err); }\<close>
  \<^verbatim>\<open>setUploading(false);\<close>
\<close>

definition ResumeUpload_onDrop ::
  "(js_file \<times> (fetch_error + resume_scan)) list \<Rightarrow> read_outcome \<Rightarrow> resume_form \<times> intake
     \<Rightarrow> resume_form \<times> intake \<times> fetch_error list" where
  "ResumeUpload_onDrop acceptedFiles rd s =
     (case s of (f, d) \<Rightarrow>
      (case acceptedFiles of
         [] \<Rightarrow> (f, d, [])
       | (fl, outcome) # _ \<Rightarrow>
           (let f1 = f\<lparr>uploading := True, fileName := file_name fl\<rparr> in
            (case outcome of
               Inr result \<Rightarrow>
                 (f1\<lparr>preview := Some result, uploading := False\<rparr>,
                  (case rd of
                     Loaded \<Rightarrow> d\<lparr>resumeText := Some (uploaded_text fl result)\<rparr>
                   | ReadFailed \<Rightarrow> d),
                  [])
             | Inl err \<Rightarrow> (f1\<lparr>uploading := False\<rparr>, d, [err])))))"

section \<open>App: the wizard state, the stepper and the submission\<close>

text \<open>The report is stored as received; its type is left open.\<close>

record 'r app_state =
  step :: nat
  data :: intake
  results :: "'r option"
  loading :: bool

text \<open>The initial values of the four \<open>useState\<close> calls of \<open>App\<close>.\<close>

definition initial_data :: intake where
  "initial_data = \<lparr>skills = [], certifications = [], projects = [], internships = [],
     resumeText = Some [], resumeFile = None\<rparr>"

definition initial_app :: "'r app_state" where
  "initial_app = \<lparr>step = 0, data = initial_data, results = None, loading = False\<rparr>"

text \<open>
  The click handler of the stepper button with index \<open>i\<close>:
  \<open>if (i <= step || isDone) setStep(i)\<close>, where \<open>isDone\<close> is \<open>i < step\<close>.
\<close>

definition jump :: "'r app_state \<Rightarrow> nat \<Rightarrow> 'r app_state" where
  "jump st i = (if i \<le> step st \<or> i < step st then st\<lparr>step := i\<rparr> else st)"

record cert_payload =
  pc_name :: jsstring
  pc_issuer :: jsstring
  pc_year :: int

record project_payload =
  pp_title :: jsstring
  pp_description :: jsstring
  pp_tech_stack :: "jsstring list"
  pp_github_url :: jsstring

record internship_payload =
  pi_company :: jsstring
  pi_role :: jsstring
  pi_duration_months :: int
  pi_achievements :: jsstring
  pi_has_certificate :: bool

record payload =
  p_skills :: "jsstring list"
  p_certifications :: "cert_payload list"
  p_projects :: "project_payload list"
  p_internships :: "internship_payload list"
  p_resume_text :: jsstring

text \<open>
  The object \<open>payload\<close> that \<open>calculateScore\<close> builds from \<open>data\<close>:
  \<^verbatim>\<open>skills: data.skills,\<close>
  \<^verbatim>\<open>certifications: data.certifications.map(c => ({\<close>
  \<^verbatim>\<open>  name: c.name, issuer: c.issuer || '', year: c.year || 2024 })),\<close>
  \<^verbatim>\<open>projects: data.projects.map(p => ({\<close>
  \<^verbatim>\<open>  title: p.title, description: p.description || '',\<close>
  \<^verbatim>\<open>  tech_stack: p.techStack || [], github_url: p.githubUrl || '' })),\<close>
  \<^verbatim>\<open>internships: data.internships.map(i => ({\<close>
  \<^verbatim>\<open>  company: i.company, role: i.role || '',\<close>
  \<^verbatim>\<open>  duration_months: i.durationMonths || 1,\<close>
  \<^verbatim>\<open>  achievements: i.achievements || '',\<close>
  \<^verbatim>\<open>  has_certificate: i.hasCertificate || false })),\<close>
  \<^verbatim>\<open>resume_text: data.resumeText || '',\<close>
\<close>

definition buildPayload :: "intake \<Rightarrow> payload" where
  "buildPayload d =
     \<lparr>p_skills = skills d,
      p_certifications = map (\<lambda>c.
         \<lparr>pc_name = name c, pc_issuer = or_str (issuer c) [],
          pc_year = or_num (year c) 2024\<rparr>) (certifications d),
      p_projects = map (\<lambda>p.
         \<lparr>pp_title = title p, pp_description = or_str (description p) [],
          pp_tech_stack = or_arr (techStack p) [],
          pp_github_url = or_str (githubUrl p) []\<rparr>) (projects d),
      p_internships = map (\<lambda>i.
         \<lparr>pi_company = company i, pi_role = or_str (role i) [],
          pi_duration_months = or_num (durationMonths i) 1,
          pi_achievements = or_str (achievements i) [],
          pi_has_certificate = or_bool (hasCertificate i) False\<rparr>) (internships d),
      p_resume_text = or_str (resumeText d) []\<rparr>"

text \<open>
  \<^verbatim>\<open>setLoading(true);\<close>
  \<^verbatim>\<open>try {\<close>
  \<^verbatim>\<open>  const payload = { ... };\<close>
  \<^verbatim>\<open>  const res = await fetch(apiUrl('/api/score/calculate'), { ... body: JSON.stringify(payload) });\<close>
  \<^verbatim>\<open>  const result = await res.json();\<close>
  \<^verbatim>\<open>  setResults(result); setStep(5);\<close>
  \<^verbatim>\<open>} catch (err) { console.error(...); alert('Error connecting to backend. ...'); }\<close>
  \<^verbatim>\<open>setLoading(false);\<close>
\<close>

definition backend_alert :: jsstring where
  "backend_alert =
     lit ''Error connecting to backend. Make sure the FastAPI server is running on port 8000.''"

text \<open>
  \<open>calculateScore\<close>: \<open>post\<close> is the scoring request (\<open>fetch\<close> and
  \<open>res.json()\<close>) as a function of the payload sent. The result is the state afterwards
  and the message passed to \<open>alert\<close>, if any.
\<close>

definition calculateScore ::
  "(payload \<Rightarrow> fetch_error + 'r) \<Rightarrow> 'r app_state \<Rightarrow> 'r app_state \<times> jsstring option" where
  "calculateScore post st =
     (let st1 = st\<lparr>loading := True\<rparr> in
      (case post (buildPayload (data st)) of
         Inr result \<Rightarrow> (st1\<lparr>results := Some result, step := 5, loading := False\<rparr>, None)
       | Inl err \<Rightarrow> (st1\<lparr>loading := False\<rparr>, Some backend_alert)))"

section \<open>The forms' initial states and inputs\<close>



definition initial_internship_form :: internship_form where
  "initial_internship_form = \<lparr>if_company = [], if_role = [], if_durationMonths = 3,
     if_achievements = [], if_hasCertificate = False\<rparr>"



section \<open>Facts about the string and array operations\<close>

lemma trim_blank_iff: "trim s = [] \<longleftrightarrow> list_all is_ws s"
proof
  assume "list_all is_ws s"
  then have "dropWhile is_ws s = []" by (simp add: list_all_iff)
  then show "trim s = []" unfolding trim_def by (simp del: dropWhile_eq_Nil_conv)
next
  assume "trim s = []"
  then have "dropWhile is_ws (rev (dropWhile is_ws s)) = []" by (simp add: trim_def)
  then have a: "\<forall>c\<in>set (dropWhile is_ws s). is_ws c" by simp
  have "dropWhile is_ws s = []"
  proof (cases "dropWhile is_ws s")
    case Nil then show ?thesis .
  next
    case (Cons c cs)
    then have "\<not> is_ws c" using hd_dropWhile[of is_ws s] by simp
    with a Cons show ?thesis by simp
  qed
  then show "list_all is_ws s" by (simp add: list_all_iff)
qed

lemma trim_ends:
  assumes "trim s \<noteq> []"
  shows "\<not> is_ws (hd (trim s))" and "\<not> is_ws (last (trim s))"
proof -
  let ?t = "dropWhile is_ws s"
  let ?u = "dropWhile is_ws (rev ?t)"
  from assms have u: "?u \<noteq> []" by (simp add: trim_def)
  then have t: "?t \<noteq> []" by (metis dropWhile.simps(1) rev.simps(1))
  have "\<not> is_ws (hd ?u)" using u hd_dropWhile[of is_ws "rev ?t"] by blast
  then show "\<not> is_ws (last (trim s))" using u by (simp add: trim_def last_rev)
  have ht: "\<not> is_ws (hd ?t)" using t hd_dropWhile[of is_ws s] by blast
  have "?t = rev ?u @ rev (takeWhile is_ws (rev ?t))"
    by (metis rev_append rev_rev_ident takeWhile_dropWhile_id)
  then have "hd ?t = hd (rev ?u)" using u by (metis hd_append2 rev_is_Nil_conv)
  with ht show "\<not> is_ws (hd (trim s))" by (simp add: trim_def)
qed

lemma filter_index_shift:
  "map fst (filter (\<lambda>(x, i). p i) (zip xs [k..<k + length xs]))
     = map fst (filter (\<lambda>(x, i). p (i + k)) (zip xs [0..<length xs]))"
proof (induction xs arbitrary: k p)
  case Nil then show ?case by simp
next
  case (Cons x xs)
  have u1: "[k..<k + length (x # xs)] = k # [Suc k..<Suc k + length xs]"
    by (simp add: upt_rec)
  have u0: "[0..<length (x # xs)] = 0 # [Suc 0..<Suc 0 + length xs]"
    by (simp add: upt_rec)
  show ?case
    unfolding u1 u0
    using Cons.IH[where k = "Suc k" and p = p] Cons.IH[where k = "Suc 0" and p = "\<lambda>i. p (i + k)"]
    by simp
qed

lemma filter_index_Cons:
  "filter_index p (x # xs) = (if p 0 then [x] else []) @ filter_index (\<lambda>i. p (Suc i)) xs"
proof -
  have u0: "[0..<length (x # xs)] = 0 # [Suc 0..<Suc 0 + length xs]"
    by (simp add: upt_rec)
  show ?thesis
    unfolding filter_index_def u0 using filter_index_shift[of p xs "Suc 0"] by simp
qed

lemma filter_index_True: "filter_index (\<lambda>i. True) xs = xs"
  by (induction xs) (simp_all add: filter_index_Cons, simp add: filter_index_def)

lemma filter_index_remove:
  "i < length xs \<Longrightarrow> filter_index (\<lambda>j. j \<noteq> i) xs = take i xs @ drop (Suc i) xs"
proof (induction xs arbitrary: i)
  case Nil then show ?case by simp
next
  case (Cons x xs)
  show ?case
  proof (cases i)
    case 0
    then show ?thesis by (simp add: filter_index_Cons filter_index_True)
  next
    case (Suc k)
    with Cons.prems have "k < length xs" by simp
    from Cons.IH[OF this] Suc show ?thesis by (simp add: filter_index_Cons)
  qed
qed

lemma js_split_nonempty: "js_split sep s \<noteq> []"
  by (induction s) (auto split: list.splits)

lemma js_join_Cons: "ys \<noteq> [] \<Longrightarrow> js_join sep (x # ys) = x @ sep @ js_join sep ys"
  by (cases ys) simp_all

lemma js_join_split: "js_join [sep] (js_split sep s) = s"
proof (induction s)
  case Nil then show ?case by simp
next
  case (Cons c cs)
  show ?case
  proof (cases "c = sep")
    case True
    then show ?thesis using Cons js_split_nonempty[of sep cs] by (simp add: js_join_Cons)
  next
    case False
    obtain w ws where e: "js_split sep cs = w # ws"
      using js_split_nonempty[of sep cs] by (cases "js_split sep cs") auto
    show ?thesis
    proof (cases ws)
      case Nil with e False Cons show ?thesis by simp
    next
      case (Cons v vs) with e False Cons.IH show ?thesis by simp
    qed
  qed
qed

lemma js_split_sep_free: "w \<in> set (js_split sep s) \<Longrightarrow> sep \<notin> set w"
  by (induction s arbitrary: w) (auto split: if_splits list.splits)

text \<open>The segments are determined by the two properties above.\<close>

lemma js_split_unique:
  assumes "segs \<noteq> []" "\<forall>g\<in>set segs. sep \<notin> set g" "js_join [sep] segs = s"
  shows "segs = js_split sep s"
  using assms
proof (induction s arbitrary: segs)
  case Nil
  then obtain g gs where e: "segs = g # gs" by (cases segs) auto
  show ?case
  proof (cases gs)
    case Nil with e \<open>js_join [sep] segs = []\<close> show ?thesis by simp
  next
    case (Cons h hs) with e \<open>js_join [sep] segs = []\<close> show ?thesis by simp
  qed
next
  case (Cons c cs)
  then obtain g gs where e: "segs = g # gs" by (cases segs) auto
  show ?case
  proof (cases g)
    case Nil
    with e Cons.prems have gs: "gs \<noteq> []" by (cases gs) auto
    with e Nil Cons.prems have "c = sep" "js_join [sep] gs = cs" by (auto simp add: js_join_Cons)
    moreover have "gs = js_split sep cs"
      using Cons.IH[of gs] gs e Cons.prems \<open>js_join [sep] gs = cs\<close> by simp
    ultimately show ?thesis using e Nil by simp
  next
    case (Cons a as)
    have c: "c = a" "js_join [sep] (as # gs) = cs"
      using e Cons Cons.prems(3) by (cases gs; simp)+
    have "a \<noteq> sep" using e Cons Cons.prems(2) by auto
    have "as # gs = js_split sep cs"
      using Cons.IH[of "as # gs"] c e Cons Cons.prems(2) by simp
    then have "js_split sep cs = as # gs" by simp
    then show ?thesis using e Cons c \<open>a \<noteq> sep\<close> by simp
  qed
qed


lemma or_str_empty: "or_str v [] = (case v of None \<Rightarrow> [] | Some s \<Rightarrow> s)"
  by (simp add: or_str_def truthy_str_def split: option.splits)

lemma or_bool_False: "or_bool v False = (case v of None \<Rightarrow> False | Some b \<Rightarrow> b)"
  by (simp add: or_bool_def truthy_bool_def split: option.splits)

lemma or_num_cases:
  "or_num v k = (case v of None \<Rightarrow> k | Some n \<Rightarrow> if n = 0 then k else n)"
  by (simp add: or_num_def truthy_num_def split: option.splits)

section \<open>Adding and removing records\<close>

text \<open>
  C5. In each of the three forms, when the required field (name, title, company) is
  empty or consists of white space only, the add handler does not call \<open>onChange\<close>,
  leaves the form as it is, and the parent's list stays what it was.
\<close>

theorem add_blank_required_is_noop:
  "(list_all is_ws (cf_name cf) \<longrightarrow>
      addCert certs cf = (None, cf) \<and> apply_change (fst (addCert certs cf)) certs = certs) \<and>
   (list_all is_ws (pf_title pf) \<longrightarrow>
      addProject projs pf = (None, pf) \<and> apply_change (fst (addProject projs pf)) projs = projs) \<and>
   (list_all is_ws (if_company nf) \<longrightarrow>
      addInternship interns nf = (None, nf) \<and>
      apply_change (fst (addInternship interns nf)) interns = interns)"
  by (simp add: addCert_def addProject_def addInternship_def apply_change_def trim_blank_iff)

theorem add_blank_required_is_noop_witness:
  "addCert [\<lparr>name = lit ''AWS'', issuer = None, year = None\<rparr>]
     \<lparr>cf_name = lit ''  '', cf_issuer = lit ''Amazon'', cf_year = 2024, scanning = False,
      scanResult = None\<rparr>
     = (None, \<lparr>cf_name = lit ''  '', cf_issuer = lit ''Amazon'', cf_year = 2024,
               scanning = False, scanResult = None\<rparr>) \<and>
   addProject []
     \<lparr>pf_title = [], pf_description = lit ''d'', pf_techStack = lit ''a,b'', pf_githubUrl = []\<rparr>
     = (None, \<lparr>pf_title = [], pf_description = lit ''d'', pf_techStack = lit ''a,b'',
               pf_githubUrl = []\<rparr>) \<and>
   addInternship []
     \<lparr>if_company = [0x09, 0x20], if_role = lit ''Intern'', if_durationMonths = 3,
      if_achievements = [], if_hasCertificate = True\<rparr>
     = (None, \<lparr>if_company = [0x09, 0x20], if_role = lit ''Intern'', if_durationMonths = 3,
               if_achievements = [], if_hasCertificate = True\<rparr>)"
  using add_blank_required_is_noop
    [of "\<lparr>cf_name = lit ''  '', cf_issuer = lit ''Amazon'', cf_year = 2024, scanning = False,
          scanResult = None\<rparr>"
        "[\<lparr>name = lit ''AWS'', issuer = None, year = None\<rparr>]"
        "\<lparr>pf_title = [], pf_description = lit ''d'', pf_techStack = lit ''a,b'',
          pf_githubUrl = []\<rparr>"
        "[]"
        "\<lparr>if_company = [0x09, 0x20], if_role = lit ''Intern'', if_durationMonths = 3,
          if_achievements = [], if_hasCertificate = True\<rparr>"
        "[]"]
  by (simp add: lit_def is_ws_def)

text \<open>
  C6. Removing index \<open>i\<close> from a list of length \<open>n\<close> with \<open>i < n\<close> passes to
  \<open>onChange\<close> the elements before \<open>i\<close> followed by the elements after \<open>i\<close>, in
  their order, a list of length \<open>n - 1\<close>; in all three forms.
\<close>

theorem remove_by_index:
  "(i < length certs \<longrightarrow>
      removeCert certs i = Some (take i certs @ drop (Suc i) certs) \<and>
      length (apply_change (removeCert certs i) certs) = length certs - 1) \<and>
   (j < length projs \<longrightarrow>
      removeProject projs j = Some (take j projs @ drop (Suc j) projs) \<and>
      length (apply_change (removeProject projs j) projs) = length projs - 1) \<and>
   (k < length interns \<longrightarrow>
      removeInternship interns k = Some (take k interns @ drop (Suc k) interns) \<and>
      length (apply_change (removeInternship interns k) interns) = length interns - 1)"
  by (simp add: removeCert_def removeProject_def removeInternship_def apply_change_def
      filter_index_remove)

theorem remove_by_index_witness:
  "removeCert [\<lparr>name = lit ''a'', issuer = None, year = None\<rparr>,
               \<lparr>name = lit ''b'', issuer = None, year = None\<rparr>,
               \<lparr>name = lit ''c'', issuer = None, year = None\<rparr>] 1
     = Some [\<lparr>name = lit ''a'', issuer = None, year = None\<rparr>,
             \<lparr>name = lit ''c'', issuer = None, year = None\<rparr>] \<and>
   removeProject [\<lparr>title = lit ''p'', description = None, techStack = None, githubUrl = None\<rparr>] 0
     = Some [] \<and>
   removeInternship
     [\<lparr>company = lit ''x'', role = None, durationMonths = None, achievements = None,
       hasCertificate = None\<rparr>,
      \<lparr>company = lit ''y'', role = None, durationMonths = None, achievements = None,
       hasCertificate = None\<rparr>] 1
     = Some [\<lparr>company = lit ''x'', role = None, durationMonths = None, achievements = None,
              hasCertificate = None\<rparr>]"
  using remove_by_index
    [of 1 "[\<lparr>name = lit ''a'', issuer = None, year = None\<rparr>,
            \<lparr>name = lit ''b'', issuer = None, year = None\<rparr>,
            \<lparr>name = lit ''c'', issuer = None, year = None\<rparr>]"
        0 "[\<lparr>title = lit ''p'', description = None, techStack = None, githubUrl = None\<rparr>]"
        1 "[\<lparr>company = lit ''x'', role = None, durationMonths = None, achievements = None,
             hasCertificate = None\<rparr>,
            \<lparr>company = lit ''y'', role = None, durationMonths = None, achievements = None,
             hasCertificate = None\<rparr>]"]
  by simp

text \<open>
  C7. Adding a skill that is already in the list does not call \<open>onChange\<close>, so the list
  stays what it was, and adding the same skill a second time changes nothing; Clear All
  passes the empty list to \<open>onChange\<close> whatever the list was.
\<close>

theorem skills_add_idempotent_clear_empty:
  "(skill \<in> set sks \<longrightarrow>
      addSkill sks skill = None \<and> apply_change (addSkill sks skill) sks = sks) \<and>
   apply_change (addSkill (apply_change (addSkill sks skill) sks) skill)
      (apply_change (addSkill sks skill) sks) = apply_change (addSkill sks skill) sks \<and>
   clearAll sks = Some [] \<and> apply_change (clearAll sks) sks = []"
  by (simp add: addSkill_def clearAll_def apply_change_def)

theorem skills_add_idempotent_clear_empty_witness:
  "addSkill [lit ''Python'', lit ''Go''] (lit ''Go'') = None \<and>
   apply_change (addSkill [lit ''Python'', lit ''Go''] (lit ''Go'')) [lit ''Python'', lit ''Go'']
     = [lit ''Python'', lit ''Go'']"
  using skills_add_idempotent_clear_empty [of "lit ''Go''" "[lit ''Python'', lit ''Go'']"]
  by (simp add: lit_def apply_change_def)

text \<open>
  C8. When the title is not blank, the add handler of the project form appends one record
  whose title, description and GitHub URL are the form's fields trimmed, and whose tech
  stack is obtained from the input by splitting it on commas (the segments have no comma
  and, joined by commas, give the input back), trimming each segment and dropping the
  segments that are then empty, the others keeping their order.
\<close>

theorem addProject_normalizes:
  assumes "\<not> list_all is_ws (pf_title form)"
  shows "\<exists>segs. segs \<noteq> [] \<and> (\<forall>g\<in>set segs. comma \<notin> set g) \<and>
           js_join [comma] segs = pf_techStack form \<and>
           fst (addProject projs form) =
             Some (projs @ [\<lparr>title = trim (pf_title form),
                             description = Some (trim (pf_description form)),
                             techStack = Some (filter (\<lambda>g. g \<noteq> []) (map trim segs)),
                             githubUrl = Some (trim (pf_githubUrl form))\<rparr>])"
proof (intro exI conjI)
  show "js_split comma (pf_techStack form) \<noteq> []" by (rule js_split_nonempty)
  show "\<forall>g\<in>set (js_split comma (pf_techStack form)). comma \<notin> set g"
    by (simp add: js_split_sep_free)
  show "js_join [comma] (js_split comma (pf_techStack form)) = pf_techStack form"
    by (rule js_join_split)
  show "fst (addProject projs form) =
          Some (projs @ [\<lparr>title = trim (pf_title form),
                          description = Some (trim (pf_description form)),
                          techStack = Some (filter (\<lambda>g. g \<noteq> [])
                            (map trim (js_split comma (pf_techStack form)))),
                          githubUrl = Some (trim (pf_githubUrl form))\<rparr>])"
    using assms by (simp add: addProject_def trim_blank_iff)
qed

theorem addProject_normalizes_witness:
  "fst (addProject []
     \<lparr>pf_title = lit '' Shop '', pf_description = lit ''A web shop. '',
      pf_techStack = lit '' React, Node.js,, ,AWS '', pf_githubUrl = []\<rparr>)
   = Some [\<lparr>title = lit ''Shop'', description = Some (lit ''A web shop.''),
            techStack = Some [lit ''React'', lit ''Node.js'', lit ''AWS''],
            githubUrl = Some []\<rparr>]"
proof -
  let ?f = "\<lparr>pf_title = lit '' Shop '', pf_description = lit ''A web shop. '',
      pf_techStack = lit '' React, Node.js,, ,AWS '', pf_githubUrl = []\<rparr>"
  have h: "\<not> list_all is_ws (pf_title ?f)" by (simp add: lit_def is_ws_def)
  from addProject_normalizes [OF h, of "[]"] obtain segs where
    s: "segs \<noteq> []" "\<forall>g\<in>set segs. comma \<notin> set g" "js_join [comma] segs = pf_techStack ?f"
    and r: "fst (addProject [] ?f) =
             Some ([] @ [\<lparr>title = trim (pf_title ?f),
                             description = Some (trim (pf_description ?f)),
                             techStack = Some (filter (\<lambda>g. g \<noteq> []) (map trim segs)),
                             githubUrl = Some (trim (pf_githubUrl ?f))\<rparr>])"
    by blast
  from s have "segs = js_split comma (pf_techStack ?f)" by (rule js_split_unique)
  with r show ?thesis by (simp add: lit_def comma_def trim_def is_ws_def)
qed


section \<open>The upload handlers\<close>

text \<open>
  The certificate handler ends every drop with \<open>scanning\<close> cleared, and a failed
  scan request leaves the error object in \<open>scanResult\<close>, which the scan panel shows.
\<close>

lemma cert_drop_clears_scanning:
  "outcomes \<noteq> [] \<Longrightarrow> \<not> scanning (fst (CertificationsForm_onDrop certs outcomes (f, d)))"
proof (induction outcomes arbitrary: f d)
  case Nil then show ?case by simp
next
  case (Cons outcome rest)
  show ?case
  proof (cases rest)
    case Nil
    then show ?thesis by (simp add: Let_def split: sum.splits)
  next
    case (Cons o2 rest2)
    then have "rest \<noteq> []" by simp
    then show ?thesis using Cons.IH by (simp add: Let_def split: sum.splits prod.splits)
  qed
qed

lemma cert_drop_failure_shows_error:
  "CertificationsForm_onDrop certs [Inl err] (f, d) =
     (f\<lparr>scanning := False, scanResult := Some scan_failed\<rparr>, d)"
  "cert_error_shown (fst (CertificationsForm_onDrop certs [Inl err] (f, d)))
     = Some (lit ''Failed to scan certificate file.'')"
  by (simp_all add: cert_error_shown_def scan_failed_def truthy_str_def lit_def)

text \<open>
  The resume handler ends every drop with \<open>uploading\<close> cleared. After a failed scan
  request the form differs from before only in \<open>fileName\<close>: the error goes to
  \<open>console.error\<close>, \<open>preview\<close> and the parent's data are untouched.
\<close>

lemma resume_drop_clears_uploading:
  "acceptedFiles \<noteq> [] \<Longrightarrow> \<not> uploading (fst (ResumeUpload_onDrop acceptedFiles rd (f, d)))"
  by (auto simp add: ResumeUpload_onDrop_def Let_def split: list.splits sum.splits read_outcome.splits)

lemma resume_drop_failure_general:
  "ResumeUpload_onDrop ((fl, Inl err) # rest) rd (f, d) =
     (f\<lparr>uploading := False, fileName := file_name fl\<rparr>, d, [err])"
  by (simp add: ResumeUpload_onDrop_def)

text \<open>
  C2. The claim asks that a transport failure on either upload path shows an inline
  error in the form. On the resume path it does not: dropping \<open>cv.pdf\<close> on the
  fresh form with the scan request failing leaves a form whose state holds the file name
  and no preview, and nothing else; the failure is only logged. (The busy flag is
  cleared and nothing is raised, as claimed; the certificate path does show the error.)
\<close>

theorem resume_drop_failure_shows_nothing:
  "ResumeUpload_onDrop [(\<lparr>file_name = lit ''cv.pdf''\<rparr>, Inl NetworkError)] Loaded
     (\<lparr>uploading = False, fileName = [], preview = None\<rparr>, initial_data)
   = (\<lparr>uploading = False, fileName = lit ''cv.pdf'', preview = None\<rparr>, initial_data,
      [NetworkError])"
  by (simp add: ResumeUpload_onDrop_def)

text \<open>
  A drop of one file whose scan identifies a certificate appends one record to the list
  the handler was created with.
\<close>

lemma cert_drop_single_identified:
  assumes "identified result = Some True" and "cert_name result = Some n" and "n \<noteq> []"
  shows "certifications (snd (CertificationsForm_onDrop certs [Inr result] (f, d))) =
           certs @ [\<lparr>name = n,
                      issuer = Some (case match result of None \<Rightarrow> []
                                     | Some m \<Rightarrow> (case tier_label m of None \<Rightarrow> [] | Some l \<Rightarrow> l)),
                      year = Some 2024\<rparr>]"
  using assms
  by (simp add: truthy_bool_def truthy_str_def tierLabel_def or_str_empty split: option.splits)

text \<open>
  C9. The claim asks that every identified scan response appends one record to the
  current list. The handler appends to \<open>certs\<close>, the list of the render that created
  it, for every file of the drop: dropping two files that are both identified on an empty
  list leaves one record, the second; the first is overwritten.
\<close>

theorem cert_drop_two_files_keeps_one:
  "certifications (snd (CertificationsForm_onDrop []
     [Inr \<lparr>identified = Some True, cert_name = Some (lit ''AWS Certified''),
           match = Some \<lparr>tier = Some (lit ''gold''), tier_label = Some (lit ''Gold Tier'')\<rparr>,
           extracted_text_preview = None, error = None\<rparr>,
      Inr \<lparr>identified = Some True, cert_name = Some (lit ''CKA''),
           match = None, extracted_text_preview = None, error = None\<rparr>]
     (\<lparr>cf_name = [], cf_issuer = [], cf_year = 2024, scanning = False, scanResult = None\<rparr>,
      initial_data)))
   = [\<lparr>name = lit ''CKA'', issuer = Some [], year = Some 2024\<rparr>]"
  by (simp add: truthy_bool_def truthy_str_def tierLabel_def or_str_empty lit_def)

text \<open>
  C4, as claimed, fails: \<open>onChange\<close> is called only in \<open>reader.onload\<close>. When the
  scan succeeds with \<open>total_words = 0\<close> and reading the file ends in an error event,
  the pasted text is still there.
\<close>

theorem resume_drop_read_failed_keeps_text:
  "resumeText (fst (snd (ResumeUpload_onDrop
     [(\<lparr>file_name = lit ''cv.pdf''\<rparr>, Inr \<lparr>total_words = Some 0, suggestions = None\<rparr>)]
     ReadFailed
     (\<lparr>uploading = False, fileName = [], preview = None\<rparr>,
      initial_data\<lparr>resumeText := Some (lit ''Ten years of experience'')\<rparr>))))
   = Some (lit ''Ten years of experience'') \<and>
   resumeText (fst (snd (ResumeUpload_onDrop
     [(\<lparr>file_name = lit ''cv.pdf''\<rparr>, Inr \<lparr>total_words = Some 0, suggestions = None\<rparr>)]
     ReadFailed
     (\<lparr>uploading = False, fileName = [], preview = None\<rparr>,
      initial_data\<lparr>resumeText := Some (lit ''Ten years of experience'')\<rparr>))))
   \<noteq> Some []"
  by (simp add: ResumeUpload_onDrop_def lit_def)

text \<open>
  C4, amended. When the scan request succeeds with a response whose \<open>total_words\<close> is
  absent or zero, and reading the file completes (the \<open>load\<close> event runs
  \<open>reader.onload\<close>), the handler has set \<open>resumeText\<close> to the empty string,
  whatever it was before; the response is stored as the preview and nothing is logged.
\<close>

theorem resume_drop_without_words_clears_text:
  assumes "total_words result = None \<or> total_words result = Some 0"
  shows "ResumeUpload_onDrop ((fl, Inr result) # rest) Loaded (f, d) =
           (f\<lparr>uploading := False, fileName := file_name fl, preview := Some result\<rparr>,
            d\<lparr>resumeText := Some []\<rparr>, [])"
  using assms by (auto simp add: ResumeUpload_onDrop_def uploaded_text_def truthy_num_def)

theorem resume_drop_without_words_clears_text_witness:
  "ResumeUpload_onDrop
     [(\<lparr>file_name = lit ''cv.pdf''\<rparr>, Inr \<lparr>total_words = Some 0, suggestions = Some [lit ''Add skills'']\<rparr>)]
     Loaded
     (\<lparr>uploading = False, fileName = [], preview = None\<rparr>,
      initial_data\<lparr>resumeText := Some (lit ''Ten years of experience'')\<rparr>)
   = (\<lparr>uploading = False, fileName = lit ''cv.pdf'',
       preview = Some \<lparr>total_words = Some 0, suggestions = Some [lit ''Add skills'']\<rparr>\<rparr>,
      initial_data\<lparr>resumeText := Some []\<rparr>, [])"
  using resume_drop_without_words_clears_text
    [of "\<lparr>total_words = Some 0, suggestions = Some [lit ''Add skills'']\<rparr>"
        "\<lparr>file_name = lit ''cv.pdf''\<rparr>" "[]"
        "\<lparr>uploading = False, fileName = [], preview = None\<rparr>"
        "initial_data\<lparr>resumeText := Some (lit ''Ten years of experience'')\<rparr>"]
  by simp

section \<open>The wizard\<close>

text \<open>
  C10. Clicking the stepper button with index \<open>i\<close> changes nothing when \<open>i\<close> is
  beyond the cursor, and sets the cursor to \<open>i\<close> when \<open>i\<close> is at most the cursor.
\<close>

theorem jump_only_backwards:
  "(step st < i \<longrightarrow> jump st i = st) \<and>
   (i \<le> step st \<longrightarrow> jump st i = st\<lparr>step := i\<rparr> \<and> step (jump st i) = i)"
  by (simp add: jump_def)

theorem jump_only_backwards_witness:
  "jump (initial_app\<lparr>step := 2\<rparr> :: unit app_state) 4 = initial_app\<lparr>step := 2\<rparr> \<and>
   step (jump (initial_app\<lparr>step := 2\<rparr> :: unit app_state) 1) = 1"
  using jump_only_backwards [of "initial_app\<lparr>step := 2\<rparr> :: unit app_state" 4]
    jump_only_backwards [of "initial_app\<lparr>step := 2\<rparr> :: unit app_state" 1]
  by simp

text \<open>
  C3. When the scoring request fails, \<open>calculateScore\<close> leaves the cursor, the intake
  data and the stored report as they were (from step 4 with no report: still step 4 and no
  report) and alerts the user; when it succeeds, the cursor is 5, the stored report is the
  one received, and the intake data is unchanged.
\<close>

theorem calculateScore_outcomes:
  "(post (buildPayload (data st)) = Inl err \<longrightarrow>
      calculateScore post st = (st\<lparr>loading := False\<rparr>, Some backend_alert) \<and>
      step (fst (calculateScore post st)) = step st \<and>
      data (fst (calculateScore post st)) = data st \<and>
      results (fst (calculateScore post st)) = results st) \<and>
   (post (buildPayload (data st)) = Inr report \<longrightarrow>
      calculateScore post st = (st\<lparr>results := Some report, step := 5, loading := False\<rparr>, None) \<and>
      step (fst (calculateScore post st)) = 5 \<and>
      data (fst (calculateScore post st)) = data st \<and>
      results (fst (calculateScore post st)) = Some report)"
  by (simp add: calculateScore_def)

theorem calculateScore_outcomes_witness:
  "step (fst (calculateScore (\<lambda>p. Inl NetworkError) (initial_app\<lparr>step := 4\<rparr> :: nat app_state))) = 4 \<and>
   data (fst (calculateScore (\<lambda>p. Inl NetworkError) (initial_app\<lparr>step := 4\<rparr> :: nat app_state)))
     = initial_data \<and>
   results (fst (calculateScore (\<lambda>p. Inl NetworkError) (initial_app\<lparr>step := 4\<rparr> :: nat app_state)))
     = None \<and>
   step (fst (calculateScore (\<lambda>p. Inr (42::nat)) (initial_app\<lparr>step := 4\<rparr>))) = 5 \<and>
   results (fst (calculateScore (\<lambda>p. Inr (42::nat)) (initial_app\<lparr>step := 4\<rparr>))) = Some 42"
  using calculateScore_outcomes
      [of "\<lambda>p. Inl NetworkError" "initial_app\<lparr>step := 4\<rparr> :: nat app_state" NetworkError 0]
    calculateScore_outcomes
      [of "\<lambda>p. Inr (42::nat)" "initial_app\<lparr>step := 4\<rparr> :: nat app_state" NetworkError 42]
  by (simp add: initial_app_def)

text \<open>
  What \<open>buildPayload\<close> does with one record per category whatever the records hold:
  each optional field verbatim when present, and the right operand of its \<open>||\<close> when
  it is absent (or, for a number, 0).
\<close>

lemma buildPayload_one_each:
  assumes "certifications d = [c]" and "projects d = [p]" and "internships d = [i]"
  shows "buildPayload d =
    \<lparr>p_skills = skills d,
     p_certifications =
       [\<lparr>pc_name = name c,
         pc_issuer = (case issuer c of None \<Rightarrow> [] | Some s \<Rightarrow> s),
         pc_year = (case year c of None \<Rightarrow> 2024 | Some y \<Rightarrow> if y = 0 then 2024 else y)\<rparr>],
     p_projects =
       [\<lparr>pp_title = title p,
         pp_description = (case description p of None \<Rightarrow> [] | Some s \<Rightarrow> s),
         pp_tech_stack = (case techStack p of None \<Rightarrow> [] | Some ts \<Rightarrow> ts),
         pp_github_url = (case githubUrl p of None \<Rightarrow> [] | Some s \<Rightarrow> s)\<rparr>],
     p_internships =
       [\<lparr>pi_company = company i,
         pi_role = (case role i of None \<Rightarrow> [] | Some s \<Rightarrow> s),
         pi_duration_months =
           (case durationMonths i of None \<Rightarrow> 1 | Some m \<Rightarrow> if m = 0 then 1 else m),
         pi_achievements = (case achievements i of None \<Rightarrow> [] | Some s \<Rightarrow> s),
         pi_has_certificate = (case hasCertificate i of None \<Rightarrow> False | Some b \<Rightarrow> b)\<rparr>],
     p_resume_text = (case resumeText d of None \<Rightarrow> [] | Some s \<Rightarrow> s)\<rparr>"
  using assms
  by (simp add: buildPayload_def or_str_empty or_bool_False or_num_cases or_arr_def)




lemma addInternship_resets_form:
  "snd (addInternship interns form) = (if list_all is_ws (if_company form) then form
     else initial_internship_form)"
  by (simp add: addInternship_def initial_internship_form_def trim_blank_iff)

lemma addCert_keeps_year:
  "cf_year f = 2024 \<Longrightarrow> cf_year (snd (addCert certs f)) = 2024"
  by (simp add: addCert_def)

lemma cert_drop_keeps_form_fields:
  "cf_year (fst (CertificationsForm_onDrop certs outcomes (f, d))) = cf_year f"
proof (induction outcomes arbitrary: f d)
  case Nil then show ?case by simp
next
  case (Cons outcome rest)
  show ?case by (cases outcome) (simp_all add: Let_def Cons.IH)
qed

lemma payload_of_scanned_certificate:
  assumes "identified result = Some True" and "cert_name result = Some n" and "n \<noteq> []"
  shows "p_certifications
           (buildPayload (snd (CertificationsForm_onDrop [] [Inr result] (f, d)))) =
         [\<lparr>pc_name = n,
           pc_issuer = (case match result of None \<Rightarrow> []
                        | Some m \<Rightarrow> (case tier_label m of None \<Rightarrow> [] | Some l \<Rightarrow> l)),
           pc_year = 2024\<rparr>]"
  using cert_drop_single_identified [OF assms, of "[]" f d]
  by (simp add: buildPayload_def or_str_empty or_num_cases)





end
